theory Spec2Isabelle
  imports Complex_Main "HOL-Library.Word"
begin

section \<open>Values shared by the worker and the proxy\<close>

text \<open>
  Python \<open>bytes\<close> are lists of 8-bit words. Python \<open>str\<close> values are modelled as
  \<open>string\<close>: request targets, header names and header values come off an HTTP/1.x
  wire, which \<open>http.server\<close> and \<open>http.client\<close> decode as ISO-8859-1, so each
  character is a code point below 256 and one \<open>char\<close>. Readings of \<open>time.time()\<close> and file
  modification times are Python floats; they are modelled as real numbers, so the
  rounding of the float subtraction is not represented.
\<close>

type_synonym byte = "8 word"
type_synonym bytes = "byte list"

subsection \<open>\<open>bytes.hex()\<close> and \<open>bytes.fromhex()\<close>\<close>

definition hex_digit :: "nat \<Rightarrow> char" where
  "hex_digit n = (if n < 10 then char_of (48 + n) else char_of (87 + n))"

definition bytes_hex :: "bytes \<Rightarrow> string" where
  "bytes_hex bs = concat (map (\<lambda>b. [hex_digit (unat b div 16), hex_digit (unat b mod 16)]) bs)"

definition hex_value :: "char \<Rightarrow> nat option" where
  "hex_value c =
     (let n = (of_char c :: nat) in
      if 48 \<le> n \<and> n \<le> 57 then Some (n - 48)
      else if 97 \<le> n \<and> n \<le> 102 then Some (n - 87)
      else if 65 \<le> n \<and> n \<le> 70 then Some (n - 55)
      else None)"

definition is_ascii_space :: "char \<Rightarrow> bool" where
  "is_ascii_space c = ((of_char c :: nat) \<in> {9, 10, 11, 12, 13, 32})"

text \<open>
  \<open>bytes.fromhex\<close> skips ASCII whitespace in front of a byte, then wants two
  hexadecimal digits; anything else raises \<open>ValueError\<close> (\<open>None\<close>).
\<close>

fun bytes_fromhex :: "string \<Rightarrow> bytes option" where
  "bytes_fromhex [] = Some []"
| "bytes_fromhex [c] = (if is_ascii_space c then Some [] else None)"
| "bytes_fromhex (c # d # cs) =
     (if is_ascii_space c then bytes_fromhex (d # cs)
      else (case hex_value c of
              None \<Rightarrow> None
            | Some h \<Rightarrow>
               (case hex_value d of
                  None \<Rightarrow> None
                | Some l \<Rightarrow> map_option ((#) (of_nat (16 * h + l))) (bytes_fromhex cs))))"

subsection \<open>\<open>str.encode()\<close>: UTF-8 of code points below 256\<close>

definition utf8_char :: "char \<Rightarrow> bytes" where
  "utf8_char c =
     (let n = (of_char c :: nat) in
      if n < 128 then [of_nat n] else [of_nat (192 + n div 64), of_nat (128 + n mod 64)])"

definition str_encode :: "string \<Rightarrow> bytes" where
  "str_encode s = concat (map utf8_char s)"

subsection \<open>JSON documents\<close>

text \<open>
  The value \<open>json.load\<close> returns, which is also what \<open>json.dump\<close> accepts: the cache
  file is represented by the document its text encodes. An object is a Python
  \<open>dict\<close>, kept as an association list in insertion order.
\<close>

datatype json =
    JNull
  | JBool bool
  | JInt int
  | JFloat real
  | JString string
  | JArray "json list"
  | JObject "(string \<times> json) list"

section \<open>The worker: \<open>rpc_worker.py\<close>\<close>

subsection \<open>The shared cache directory\<close>

text \<open>
  A file of the cache directory: its modification time (\<open>os.path.getmtime\<close>) and the
  document \<open>json.load\<close> reads from it, \<open>None\<close> when \<open>json.load\<close> raises on its text.
  The file system maps a path to the file stored there. Opening, writing and removing
  a file are taken to succeed.
\<close>

record cache_file =
  mtime :: real
  parsed :: "json option"

type_synonym filesystem = "string \<rightharpoonup> cache_file"

text \<open>The environment of one worker process: \<open>CACHE_DIR\<close> and \<open>WORKER_ID\<close>.\<close>

record worker_env =
  CACHE_DIR :: string
  WORKER_ID :: "string option"

definition CACHE_TTL :: real where
  "CACHE_TTL = 60"

text \<open>
  \<open>hashlib.md5(...).hexdigest()\<close> is library code; the digest function is the
  parameter \<open>md5_hexdigest\<close> of everything that derives a cache key.
\<close>

definition get_cache_key :: "(bytes \<Rightarrow> string) \<Rightarrow> string \<Rightarrow> string" where
  "get_cache_key md5_hexdigest url = md5_hexdigest (str_encode url)"

definition path_join :: "string \<Rightarrow> string \<Rightarrow> string" where
  "path_join a b =
     (if take 1 b = ''/'' then b
      else if a = [] \<or> last a = CHR ''/'' then a @ b
      else a @ ''/'' @ b)"

definition get_cache_path :: "worker_env \<Rightarrow> string \<Rightarrow> string" where
  "get_cache_path env cache_key = path_join (CACHE_DIR env) (cache_key @ ''.json'')"

text \<open>
  The dictionary \<open>read_from_cache\<close> returns: the loaded document's members, and the
  \<open>Binary\<close> stored under \<open>'content'\<close> by the assignment after the load.
\<close>

record cached_data =
  members :: "(string \<times> json) list"
  binary :: bytes

text \<open>
  \<open>read_from_cache\<close>. Every exception inside the \<open>try\<close> (the load, a missing or
  non-string \<open>'content_hex'\<close>, a document that is no object, invalid hexadecimal)
  ends in \<open>return None\<close> with the file left in place.
\<close>

definition read_from_cache ::
  "(bytes \<Rightarrow> string) \<Rightarrow> worker_env \<Rightarrow> string \<Rightarrow> real \<Rightarrow> filesystem
     \<Rightarrow> cached_data option \<times> filesystem" where
  "read_from_cache md5_hexdigest env url now fs =
     (let cache_key = get_cache_key md5_hexdigest url;
          cache_path = get_cache_path env cache_key
      in case fs cache_path of
           None \<Rightarrow> (None, fs)
         | Some f \<Rightarrow>
            (let file_age = now - mtime f in
             if file_age < CACHE_TTL then
               (case parsed f of
                  Some (JObject data) \<Rightarrow>
                    (case map_of data ''content_hex'' of
                       Some (JString h) \<Rightarrow>
                         (case bytes_fromhex h of
                            Some b \<Rightarrow> (Some \<lparr>members = data, binary = b\<rparr>, fs)
                          | None \<Rightarrow> (None, fs))
                     | _ \<Rightarrow> (None, fs))
                | _ \<Rightarrow> (None, fs))
             else (None, fs(cache_path := None))))"

text \<open>The result dictionary of \<open>fetch_url\<close>.\<close>

record fetch_result =
  status :: json
  headers :: json
  content :: bytes
  cached :: bool
  worker :: string
  error :: "string option"

definition cache_data :: "string \<Rightarrow> fetch_result \<Rightarrow> real \<Rightarrow> (string \<times> json) list" where
  "cache_data url data stamp =
     [(''url'', JString url),
      (''status'', status data),
      (''headers'', headers data),
      (''content_hex'', JString (bytes_hex (content data))),
      (''timestamp'', JFloat stamp)]"

text \<open>
  \<open>write_to_cache\<close>; \<open>json.dump\<close> stores the dictionary \<open>cache_data\<close> as an object.
  \<open>stamp\<close> is the reading of \<open>time.time()\<close> stored in the document,
  \<open>written\<close> the modification time the file gets when it is written.
\<close>

definition write_to_cache ::
  "(bytes \<Rightarrow> string) \<Rightarrow> worker_env \<Rightarrow> string \<Rightarrow> fetch_result \<Rightarrow> real \<Rightarrow> real \<Rightarrow> filesystem
     \<Rightarrow> filesystem" where
  "write_to_cache md5_hexdigest env url data stamp written fs =
     (let cache_key = get_cache_key md5_hexdigest url;
          cache_path = get_cache_path env cache_key
      in fs(cache_path \<mapsto> \<lparr>mtime = written, parsed = Some (JObject (cache_data url data stamp))\<rparr>))"

subsection \<open>\<open>fetch_url\<close>\<close>

text \<open>
  What \<open>urllib.request.urlopen\<close> does for this call: a response (its status, the
  value of \<open>dict(response.headers)\<close>, the body read), an \<open>HTTPError\<close> with its code
  and \<open>str(e)\<close>, or any other exception with \<open>str(e)\<close>.
\<close>

datatype upstream =
    Response int "(string \<times> string) list" bytes
  | HTTPError int string
  | OtherError string

text \<open>The three clock readings of one call.\<close>

record fetch_clock =
  t_read :: real
  t_stamp :: real
  t_written :: real

datatype py_error = KeyError string

definition worker_id :: "worker_env \<Rightarrow> string" where
  "worker_id env = (case WORKER_ID env of Some w \<Rightarrow> w | None \<Rightarrow> ''local'')"

text \<open>
  The dictionary \<open>read_from_cache\<close> returns always has the key \<open>'content'\<close>, so
  \<open>if cached:\<close> holds exactly when it is not \<open>None\<close>. A cached document without
  \<open>'status'\<close> or \<open>'headers'\<close> raises \<open>KeyError\<close> out of \<open>fetch_url\<close>.
\<close>

definition fetch_url ::
  "(bytes \<Rightarrow> string) \<Rightarrow> worker_env \<Rightarrow> string \<Rightarrow> fetch_clock \<Rightarrow> upstream \<Rightarrow> filesystem
     \<Rightarrow> (py_error + fetch_result) \<times> filesystem" where
  "fetch_url md5_hexdigest env url clock up fs =
     (case read_from_cache md5_hexdigest env url (t_read clock) fs of
        (Some c, fs') \<Rightarrow>
          (case map_of (members c) ''status'' of
             None \<Rightarrow> (Inl (KeyError ''status''), fs')
           | Some s \<Rightarrow>
              (case map_of (members c) ''headers'' of
                 None \<Rightarrow> (Inl (KeyError ''headers''), fs')
               | Some h \<Rightarrow>
                  (Inr \<lparr>status = s, headers = h, content = binary c, cached = True,
                        worker = worker_id env, error = None\<rparr>, fs')))
      | (None, fs') \<Rightarrow>
          (case up of
             Response st hs body \<Rightarrow>
               (let result = \<lparr>status = JInt st,
                              headers = JObject (map (\<lambda>(k, v). (k, JString v)) hs),
                              content = body, cached = False,
                              worker = worker_id env, error = None\<rparr>
                in (Inr result,
                    write_to_cache md5_hexdigest env url result (t_stamp clock) (t_written clock) fs'))
           | HTTPError code msg \<Rightarrow>
               (Inr \<lparr>status = JInt code, headers = JObject [], content = str_encode msg,
                     cached = False, worker = worker_id env, error = Some msg\<rparr>, fs')
           | OtherError msg \<Rightarrow>
               (Inr \<lparr>status = JInt 500, headers = JObject [], content = str_encode msg,
                     cached = False, worker = worker_id env, error = Some msg\<rparr>, fs')))"

subsection \<open>The cache content as the specification counts it\<close>

text \<open>
  The specification: a cache entry is valid if and only if \<open>now - write_timestamp <
  TTL\<close>, and once invalid it must be treated as absent. Following these words, the
  content of the cache under a path at a time is the file stored there if it is valid
  at that time, and nothing otherwise.
\<close>

definition cache_content :: "real \<Rightarrow> filesystem \<Rightarrow> string \<Rightarrow> cache_file option" where
  "cache_content now fs p =
     (case fs p of
        None \<Rightarrow> None
      | Some f \<Rightarrow> if now - mtime f < CACHE_TTL then Some f else None)"

section \<open>The proxy: \<open>rpc_proxy_server.py\<close>\<close>

subsection \<open>String helpers of the Python library\<close>

text \<open>\<open>str.isspace\<close>, \<open>str.strip\<close> and \<open>str.lower\<close> on code points below 256.\<close>

definition py_isspace :: "char \<Rightarrow> bool" where
  "py_isspace c = ((of_char c :: nat) \<in> {9, 10, 11, 12, 13, 28, 29, 30, 31, 32, 133, 160})"

definition py_strip :: "string \<Rightarrow> string" where
  "py_strip s = rev (dropWhile py_isspace (rev (dropWhile py_isspace s)))"

definition lower_char :: "char \<Rightarrow> char" where
  "lower_char c =
     (let n = (of_char c :: nat) in
      if (65 \<le> n \<and> n \<le> 90) \<or> (192 \<le> n \<and> n \<le> 222 \<and> n \<noteq> 215) then char_of (n + 32) else c)"

definition py_lower :: "string \<Rightarrow> string" where
  "py_lower s = map lower_char s"

text \<open>\<open>str()\<close> of an integer and of a boolean.\<close>

definition digit_char :: "nat \<Rightarrow> char" where
  "digit_char d = char_of (48 + d)"

function str_nat :: "nat \<Rightarrow> string" where
  "str_nat n = (if n < 10 then [digit_char n] else str_nat (n div 10) @ [digit_char (n mod 10)])"
  by pat_completeness auto
termination
  by (relation "measure id") auto

declare str_nat.simps [simp del]

definition str_int :: "int \<Rightarrow> string" where
  "str_int i = (if i < 0 then ''-'' @ str_nat (nat (- i)) else str_nat (nat i))"

definition str_bool :: "bool \<Rightarrow> string" where
  "str_bool b = (if b then ''True'' else ''False'')"

text \<open>
  The format \<open>.2f\<close>: two decimals, rounded to the nearest with ties to even, the sign
  of a negative number kept even when it rounds to zero.
\<close>

definition round_half_even :: "real \<Rightarrow> int" where
  "round_half_even x =
     (let f = \<lfloor>x\<rfloor>; d = x - of_int f in
      if d < 1 / 2 then f
      else if 1 / 2 < d then f + 1
      else if even f then f else f + 1)"

definition format_2f :: "real \<Rightarrow> string" where
  "format_2f x =
     (let n = nat (round_half_even (\<bar>x\<bar> * 100)) in
      (if x < 0 then ''-'' else '''') @ str_nat (n div 100) @ ''.''
        @ [digit_char (n mod 100 div 10), digit_char (n mod 10)])"

text \<open>
  The \<open>netloc\<close> of \<open>urllib.parse.urlparse(url)\<close>, \<open>None\<close> when the call raises
  \<open>ValueError\<close>: leading control characters and spaces are dropped, tabs and newlines
  removed, a scheme (a letter, then letters, digits, \<open>+\<close>, \<open>-\<close>, \<open>.\<close> up to the first
  colon) is split off, and after \<open>//\<close> the netloc runs to the first of \<open>/\<close>, \<open>?\<close>, \<open>#\<close>. A
  netloc holding one square bracket without the other is rejected (\<open>Invalid IPv6
  URL\<close>). A netloc holding both is rejected unless the text between the first \<open>[\<close> and
  the next \<open>]\<close> is an IPvFuture literal or an IPv6 address as \<open>ipaddress.ip_address\<close>
  reads it; the definitions below follow \<open>_check_bracketed_host\<close> and the parsers of
  \<open>ipaddress\<close>. The last check of \<open>urlsplit\<close>, on the NFKC form of a non-ASCII netloc,
  never raises on code points below 256 and is left out.
\<close>

definition is_scheme_char :: "char \<Rightarrow> bool" where
  "is_scheme_char c =
     (let n = (of_char c :: nat) in
      (97 \<le> n \<and> n \<le> 122) \<or> (65 \<le> n \<and> n \<le> 90) \<or> (48 \<le> n \<and> n \<le> 57) \<or> n \<in> {43, 45, 46})"

definition is_ascii_alpha :: "char \<Rightarrow> bool" where
  "is_ascii_alpha c =
     (let n = (of_char c :: nat) in (97 \<le> n \<and> n \<le> 122) \<or> (65 \<le> n \<and> n \<le> 90))"

definition strip_scheme :: "string \<Rightarrow> string" where
  "strip_scheme url =
     (let scheme = takeWhile (\<lambda>c. c \<noteq> CHR '':'') url in
      if CHR '':'' \<in> set url \<and> scheme \<noteq> [] \<and> is_ascii_alpha (hd url) \<and> list_all is_scheme_char scheme
      then drop (length scheme + 1) url
      else url)"

text \<open>\<open>str.split(sep)\<close> with a one-character separator.\<close>

fun str_split :: "char \<Rightarrow> string \<Rightarrow> string list" where
  "str_split sep [] = [[]]"
| "str_split sep (c # cs) =
     (if c = sep then [] # str_split sep cs
      else (case str_split sep cs of [] \<Rightarrow> [[c]] | p # ps \<Rightarrow> (c # p) # ps))"

text \<open>
  \<open>IPv4Address(addr_str)\<close>: four decimal octets, \<open>None\<close> when it raises. \<open>str_hex\<close> is
  the format \<open>%x\<close>.
\<close>

definition is_ascii_digit :: "char \<Rightarrow> bool" where
  "is_ascii_digit c = (let n = (of_char c :: nat) in 48 \<le> n \<and> n \<le> 57)"

definition int_decimal :: "string \<Rightarrow> nat" where
  "int_decimal s = foldl (\<lambda>a c. 10 * a + ((of_char c :: nat) - 48)) 0 s"

definition parse_octet :: "string \<Rightarrow> nat option" where
  "parse_octet octet_str =
     (if octet_str = [] then None
      else if \<not> list_all is_ascii_digit octet_str then None
      else if 3 < length octet_str then None
      else if octet_str \<noteq> ''0'' \<and> hd octet_str = CHR ''0'' then None
      else if 255 < int_decimal octet_str then None
      else Some (int_decimal octet_str))"

definition ipv4_address :: "string \<Rightarrow> int option" where
  "ipv4_address addr_str =
     (if CHR ''/'' \<in> set addr_str then None
      else if addr_str = [] then None
      else (let octets = map parse_octet (str_split CHR ''.'' addr_str) in
            if length octets \<noteq> 4 then None
            else if None \<in> set octets then None
            else Some (foldl (\<lambda>a b. 256 * a + int b) 0 (map the octets))))"

function str_hex :: "int \<Rightarrow> string" where
  "str_hex n =
     (if n < 16 then [hex_digit (nat n)] else str_hex (n div 16) @ [hex_digit (nat (n mod 16))])"
  by pat_completeness auto
termination
  by (relation "measure nat") auto

declare str_hex.simps [simp del]

text \<open>
  \<open>IPv6Address(addr_str)\<close> succeeds: the scope id is split off, a dotted last part
  is read as an IPv4 address and replaced by two hextets, and the parts are checked
  around at most one \<open>::\<close>.
\<close>

definition parse_hextet :: "string \<Rightarrow> bool" where
  "parse_hextet hextet_str =
     (list_all (\<lambda>c. hex_value c \<noteq> None) hextet_str \<and> length hextet_str \<le> 4 \<and> hextet_str \<noteq> [])"

definition ipv6_parts :: "string list \<Rightarrow> bool" where
  "ipv6_parts parts =
     (let n = length parts;
          skips = filter (\<lambda>i. parts ! i = []) [1..<n - 1]
      in if 9 < n then False
         else if 1 < length skips then False
         else (case skips of
                 skip_index # _ \<Rightarrow>
                   (let parts_hi = (if hd parts = [] then skip_index - 1 else skip_index);
                        parts_lo = (if last parts = [] then n - skip_index - 2 else n - skip_index - 1)
                    in if hd parts = [] \<and> parts_hi \<noteq> 0 then False
                       else if last parts = [] \<and> parts_lo \<noteq> 0 then False
                       else if 8 \<le> parts_hi + parts_lo then False
                       else list_all parse_hextet (take parts_hi parts)
                            \<and> list_all parse_hextet (drop (n - parts_lo) parts))
               | [] \<Rightarrow>
                   if n \<noteq> 8 then False
                   else if hd parts = [] then False
                   else if last parts = [] then False
                   else list_all parse_hextet parts))"

definition ipv6_address :: "string \<Rightarrow> bool" where
  "ipv6_address addr_str0 =
     (if CHR ''/'' \<in> set addr_str0 then False
      else
        (let addr_str = takeWhile (\<lambda>c. c \<noteq> CHR ''%'') addr_str0;
             scope_id = drop (length addr_str + 1) addr_str0
         in if CHR ''%'' \<in> set addr_str0 \<and> (scope_id = [] \<or> CHR ''%'' \<in> set scope_id) then False
            else if addr_str = [] then False
            else
              (let parts = str_split CHR '':'' addr_str in
               if length parts < 3 then False
               else if CHR ''.'' \<in> set (last parts) then
                 (case ipv4_address (last parts) of
                    None \<Rightarrow> False
                  | Some ipv4_int \<Rightarrow>
                      ipv6_parts (butlast parts @ [str_hex (ipv4_int div 65536 mod 65536),
                                                  str_hex (ipv4_int mod 65536)]))
               else ipv6_parts parts)))"

text \<open>
  \<open>_check_bracketed_host\<close> returns without raising: a host starting with \<open>v\<close> must
  match \<open>v\<close>, hexadecimal digits, a dot and at least one more character; any other
  host must be an IPv6 address and not an IPv4 address.
\<close>

definition ipvfuture :: "string \<Rightarrow> bool" where
  "ipvfuture hostname =
     (let digits = takeWhile (\<lambda>c. hex_value c \<noteq> None) (drop 1 hostname);
          rest = drop (1 + length digits) hostname
      in digits \<noteq> [] \<and> take 1 rest = ''.'' \<and> drop 1 rest \<noteq> [] \<and> CHR 0x0A \<notin> set (drop 1 rest))"

definition check_bracketed_host :: "string \<Rightarrow> bool" where
  "check_bracketed_host hostname =
     (if take 1 hostname = ''v'' then ipvfuture hostname
      else ipv4_address hostname = None \<and> ipv6_address hostname)"

definition urlparse_netloc :: "string \<Rightarrow> string option" where
  "urlparse_netloc url0 =
     (let url1 = dropWhile (\<lambda>c. (of_char c :: nat) \<le> 32) url0;
          url2 = filter (\<lambda>c. (of_char c :: nat) \<notin> {9, 10, 13}) url1;
          url = strip_scheme url2
      in if take 2 url = ''//'' then
           (let netloc = takeWhile (\<lambda>c. c \<notin> set ''/?#'') (drop 2 url) in
            if (CHR ''['' \<in> set netloc \<and> CHR '']'' \<notin> set netloc)
               \<or> (CHR '']'' \<in> set netloc \<and> CHR ''['' \<notin> set netloc)
            then None
            else if CHR ''['' \<in> set netloc \<and> CHR '']'' \<in> set netloc
                    \<and> \<not> check_bracketed_host
                          (takeWhile (\<lambda>c. c \<noteq> CHR '']'')
                             (drop 1 (dropWhile (\<lambda>c. c \<noteq> CHR ''['') netloc)))
            then None
            else Some netloc)
         else Some [])"

subsection \<open>Global state, \<open>LoadBalancer\<close> and \<open>check_workers\<close>\<close>

text \<open>
  The module's mutable state: the global \<open>active_workers\<close>, the counter
  \<open>load_balancer.index\<close>, and the lines written to \<open>LOG_FILE\<close> so far, one per
  \<open>f.write\<close>. Writing to the log file and to the client socket is taken to succeed.
\<close>

record proxy_state =
  active_workers :: "string list"
  index :: int
  access_log :: "string list"

definition get_worker :: "proxy_state \<Rightarrow> string option \<times> proxy_state" where
  "get_worker st =
     (if active_workers st = [] then (None, st)
      else (Some (active_workers st ! nat (index st mod int (length (active_workers st)))),
            st\<lparr>index := index st + 1\<rparr>))"

text \<open>
  One health call: the call raises (transport error, timeout, unparsable reply), or
  returns a dictionary whose \<open>'status'\<close> member is the given string, \<open>None\<close> when the
  key is missing (a \<open>KeyError\<close>, caught like the others).
\<close>

datatype health_outcome = HealthRaised | HealthReturned "string option"

text \<open>
  The loop of \<open>check_workers\<close> runs on the global state, the local list \<open>alive\<close>, and
  the health calls made so far (a record of the calls, not a variable of the program).
\<close>

record probe_state =
  globals :: proxy_state
  alive :: "string list"
  probed :: "string list"

definition probe_step :: "(string \<Rightarrow> health_outcome) \<Rightarrow> probe_state \<Rightarrow> string \<Rightarrow> probe_state" where
  "probe_step health m w =
     (let worker_url = py_strip w in
      if worker_url = [] then m
      else (case health worker_url of
              HealthReturned (Some s) \<Rightarrow>
                if s = ''ok''
                then m\<lparr>alive := alive m @ [worker_url], probed := probed m @ [worker_url]\<rparr>
                else m\<lparr>probed := probed m @ [worker_url]\<rparr>
            | _ \<Rightarrow> m\<lparr>probed := probed m @ [worker_url]\<rparr>))"

definition probe_all :: "(string \<Rightarrow> health_outcome) \<Rightarrow> string list \<Rightarrow> proxy_state \<Rightarrow> probe_state" where
  "probe_all health WORKERS st =
     foldl (probe_step health) \<lparr>globals = st, alive = [], probed = []\<rparr> WORKERS"

definition check_workers ::
  "(string \<Rightarrow> health_outcome) \<Rightarrow> string list \<Rightarrow> proxy_state \<Rightarrow> nat \<times> proxy_state" where
  "check_workers health WORKERS st =
     (let m = probe_all health WORKERS st
      in (length (alive m), (globals m)\<lparr>active_workers := alive m\<rparr>))"

text \<open>
  The global state at every point of one call of \<open>check_workers\<close>: before the loop,
  after each iteration, and after the final assignment.
\<close>

fun probe_states :: "(string \<Rightarrow> health_outcome) \<Rightarrow> probe_state \<Rightarrow> string list \<Rightarrow> probe_state list" where
  "probe_states health m [] = [m]"
| "probe_states health m (w # ws) = m # probe_states health (probe_step health m w) ws"

definition check_workers_states ::
  "(string \<Rightarrow> health_outcome) \<Rightarrow> string list \<Rightarrow> proxy_state \<Rightarrow> proxy_state list" where
  "check_workers_states health WORKERS st =
     map globals (probe_states health \<lparr>globals = st, alive = [], probed = []\<rparr> WORKERS)
       @ [snd (check_workers health WORKERS st)]"

text \<open>The configured endpoints: the entries of \<open>WORKERS\<close>, stripped, the empty ones skipped.\<close>

definition endpoints :: "string list \<Rightarrow> string list" where
  "endpoints WORKERS = filter (\<lambda>u. u \<noteq> []) (map py_strip WORKERS)"

subsection \<open>\<open>log_access\<close>\<close>

text \<open>
  The body runs inside \<open>try\<close>; when \<open>urlparse\<close> raises, the handler prints the error and
  nothing is written.
\<close>

definition log_access ::
  "string \<Rightarrow> string \<Rightarrow> string \<Rightarrow> string \<Rightarrow> int \<Rightarrow> string \<Rightarrow> bool \<Rightarrow> real \<Rightarrow> string list
     \<Rightarrow> string list" where
  "log_access timestamp client_ip method url code worker_name was_cached response_time written =
     (case urlparse_netloc url of
        None \<Rightarrow> written
      | Some netloc \<Rightarrow>
         (let domain = (if netloc = [] then ''unknown'' else netloc);
              log_line = timestamp @ ''|'' @ client_ip @ ''|'' @ method @ ''|'' @ url @ ''|''
                @ domain @ ''|'' @ str_int code @ ''|'' @ worker_name @ ''|''
                @ str_bool was_cached @ ''|'' @ format_2f response_time @ [CHR 0x0A]
          in written @ [log_line]))"

subsection \<open>\<open>ProxyHandler.do_GET\<close>\<close>

text \<open>
  The reply of \<open>proxy.fetch_url(url)\<close>: the call raises with a message (transport
  error, timeout, fault, unparsable reply), or returns a dictionary. A member is
  \<open>None\<close> when its key is missing: \<open>result['status']\<close> and \<open>result['content']\<close> then
  raise \<open>KeyError\<close>, the others are read with \<open>get\<close> and a default.
\<close>

record rpc_reply =
  r_status :: "int option"
  r_headers :: "(string \<times> string) list option"
  r_content :: "bytes option"
  r_worker :: "string option"
  r_cached :: "bool option"

datatype rpc_outcome = RpcRaised string | RpcReturned rpc_reply

text \<open>The calls the handler makes on the response, in order.\<close>

datatype http_event =
    SendResponse int
  | SendHeader string string
  | EndHeaders
  | Write bytes
  | SendError int string

text \<open>
  One request: the request path, the client's address, the readings of \<open>time.time()\<close>
  at the start, after the RPC reply and in the exception handler, and the timestamp
  \<open>datetime.now().isoformat()\<close> of the log line.
\<close>

record request =
  path :: string
  client_ip :: string
  t_start :: real
  t_reply :: real
  t_except :: real
  log_timestamp :: string

record get_outcome =
  new_state :: proxy_state
  response :: "http_event list"
  rpc_calls :: "(string \<times> string) list"

text \<open>\<open>str(e)\<close> of a \<open>KeyError\<close>: the key between single quotes.\<close>

definition key_error :: "string \<Rightarrow> string" where
  "key_error k = [CHR 0x27] @ k @ [CHR 0x27]"

definition target_url :: "request \<Rightarrow> string" where
  "target_url req = (if take 4 (path req) = ''http'' then path req else ''http://example.com'' @ path req)"

definition no_worker :: "request \<Rightarrow> proxy_state \<Rightarrow> get_outcome" where
  "no_worker req st =
     \<lparr>new_state = st\<lparr>access_log :=
          log_access (log_timestamp req) (client_ip req) ''GET'' (target_url req) 503 ''none'' False 0
            (access_log st)\<rparr>,
      response = [SendError 503 ''No RPC workers available''],
      rpc_calls = []\<rparr>"

definition rpc_failed ::
  "request \<Rightarrow> proxy_state \<Rightarrow> string \<Rightarrow> http_event list \<Rightarrow> string \<Rightarrow> get_outcome" where
  "rpc_failed req st worker_url sent e =
     (let response_time = (t_except req - t_start req) * 1000 in
      \<lparr>new_state = st\<lparr>access_log :=
           log_access (log_timestamp req) (client_ip req) ''GET'' (target_url req) 502 worker_url False
             response_time (access_log st)\<rparr>,
       response = sent @ [SendError 502 (''RPC Error: '' @ e)],
       rpc_calls = [(worker_url, target_url req)]\<rparr>)"

definition forwarded_headers :: "(string \<times> string) list \<Rightarrow> http_event list" where
  "forwarded_headers hs =
     map (\<lambda>(key, v). SendHeader key v)
       (filter (\<lambda>(key, v). py_lower key \<notin> set [''transfer-encoding'', ''connection'']) hs)"

definition do_GET :: "(string \<Rightarrow> string \<Rightarrow> rpc_outcome) \<Rightarrow> request \<Rightarrow> proxy_state \<Rightarrow> get_outcome" where
  "do_GET rpc req st =
     (let url = target_url req in
      case get_worker st of
        (None, st1) \<Rightarrow> no_worker req st1
      | (Some worker_url, st1) \<Rightarrow>
          if worker_url = [] then no_worker req st1
          else
            (case rpc worker_url url of
               RpcRaised e \<Rightarrow> rpc_failed req st1 worker_url [] e
             | RpcReturned result \<Rightarrow>
                (let response_time = (t_reply req - t_start req) * 1000 in
                 case r_status result of
                   None \<Rightarrow> rpc_failed req st1 worker_url [] (key_error ''status'')
                 | Some code \<Rightarrow>
                    (let served_by = (case r_worker result of Some w \<Rightarrow> w | None \<Rightarrow> worker_url);
                         was_cached = (case r_cached result of Some c \<Rightarrow> c | None \<Rightarrow> False);
                         sent = [SendResponse code]
                           @ forwarded_headers (case r_headers result of Some hs \<Rightarrow> hs | None \<Rightarrow> [])
                           @ [SendHeader ''X-Proxy'' ''RPC-Proxy'',
                              SendHeader ''X-Worker'' served_by,
                              SendHeader ''X-Cached'' (str_bool was_cached),
                              SendHeader ''X-Response-Time'' (format_2f response_time @ ''ms''),
                              EndHeaders]
                     in case r_content result of
                          None \<Rightarrow> rpc_failed req st1 worker_url sent (key_error ''content'')
                        | Some body \<Rightarrow>
                           \<lparr>new_state = st1\<lparr>access_log :=
                                log_access (log_timestamp req) (client_ip req) ''GET'' url code served_by
                                  was_cached response_time (access_log st1)\<rparr>,
                            response = sent @ [Write body],
                            rpc_calls = [(worker_url, url)]\<rparr>))))"

subsection \<open>Header names as the specification compares them\<close>

text \<open>
  The specification strips the headers whose name is \<open>Transfer-Encoding\<close> or
  \<open>Connection\<close> without regard to case. These definitions follow its words, with the
  usual case-insensitive comparison of header names (the letters A to Z folded); the
  code's test is \<open>key.lower() not in [...]\<close> in \<open>forwarded_headers\<close>.
\<close>

definition ascii_lower :: "char \<Rightarrow> char" where
  "ascii_lower c = (let n = (of_char c :: nat) in if 65 \<le> n \<and> n \<le> 90 then char_of (n + 32) else c)"

definition same_header_name :: "string \<Rightarrow> string \<Rightarrow> bool" where
  "same_header_name a b = (map ascii_lower a = map ascii_lower b)"

definition spec_stripped :: "string \<Rightarrow> bool" where
  "spec_stripped name =
     (same_header_name name ''Transfer-Encoding'' \<or> same_header_name name ''Connection'')"

section \<open>Example inputs\<close>

text \<open>
  Two workers that share one cache directory, a URL, and the result of a fetch that
  reached the origin server. The theorems below that evaluate the code at these inputs
  hold for every digest function, so they quantify over it.
\<close>

definition ex_env :: worker_env where
  "ex_env = \<lparr>CACHE_DIR = ''./cache_data'', WORKER_ID = Some ''worker-1''\<rparr>"

definition ex_env2 :: worker_env where
  "ex_env2 = \<lparr>CACHE_DIR = ''./cache_data'', WORKER_ID = Some ''worker-2''\<rparr>"

definition ex_url :: string where
  "ex_url = ''http://example.com/''"

definition ex_upstream :: upstream where
  "ex_upstream = Response 200 [(''Content-Type'', ''text/html'')] [0x3C, 0x70, 0x3E, 0x00, 0xFF]"

definition ex_result :: fetch_result where
  "ex_result = \<lparr>status = JInt 200, headers = JObject [(''Content-Type'', JString ''text/html'')],
                 content = [0x3C, 0x70, 0x3E, 0x00, 0xFF], cached = False,
                 worker = ''worker-1'', error = None\<rparr>"

definition ex_clock :: "real \<Rightarrow> fetch_clock" where
  "ex_clock t = \<lparr>t_read = t, t_stamp = t, t_written = t\<rparr>"

text \<open>
  States of the proxy with no worker and with two workers, a request, a request whose
  target has an unclosed bracket in its host (the request line
  \<open>GET http://[::1/index.html HTTP/1.1\<close>),
  and outcomes of the RPC call.
\<close>

definition ex_idle :: proxy_state where
  "ex_idle = \<lparr>active_workers = [], index = 7, access_log = []\<rparr>"

definition ex_pool :: proxy_state where
  "ex_pool = \<lparr>active_workers = [''http://localhost:8001'', ''http://localhost:8002''],
               index = 3, access_log = []\<rparr>"

definition ex_request :: request where
  "ex_request = \<lparr>path = ''http://example.com/index.html'', client_ip = ''10.0.0.5'',
                  t_start = 100, t_reply = 100 + 1 / 4, t_except = 100 + 1 / 2,
                  log_timestamp = ''2024-01-01T00:00:00.000000''\<rparr>"

definition ex_bracket_request :: request where
  "ex_bracket_request = ex_request\<lparr>path := ''http://[::1/index.html''\<rparr>"

definition ex_reply :: rpc_reply where
  "ex_reply = \<lparr>r_status = Some 200,
                r_headers = Some [(''Content-Type'', ''text/html''),
                                  (''Transfer-Encoding'', ''chunked''),
                                  (''CONNECTION'', ''close'')],
                r_content = Some [0x3C, 0x70, 0x3E, 0x00, 0xFF],
                r_worker = Some ''worker-1'', r_cached = Some True\<rparr>"

definition ex_error_reply :: rpc_reply where
  "ex_error_reply = \<lparr>r_status = Some 500, r_headers = Some [],
                      r_content = Some (str_encode ''<urlopen error [Errno -2] Name or service not known>''),
                      r_worker = Some ''worker-1'', r_cached = Some False\<rparr>"

definition ex_rpc_down :: "string \<Rightarrow> string \<Rightarrow> rpc_outcome" where
  "ex_rpc_down w u = RpcRaised ''[Errno 111] Connection refused''"

definition ex_rpc_up :: "rpc_reply \<Rightarrow> string \<Rightarrow> string \<Rightarrow> rpc_outcome" where
  "ex_rpc_up r w u = RpcReturned r"

text \<open>A configuration of six entries, one of them blank, and what each endpoint answers to a health call.\<close>

definition ex_WORKERS :: "string list" where
  "ex_WORKERS = [''http://localhost:8001'', '' http://localhost:8002 '', '' '',
                 ''http://localhost:8003'', ''http://localhost:8004'', ''http://localhost:8005'']"

definition ex_health :: "string \<Rightarrow> health_outcome" where
  "ex_health u =
     (if u = ''http://localhost:8001'' \<or> u = ''http://localhost:8002'' then HealthReturned (Some ''ok'')
      else if u = ''http://localhost:8003'' then HealthRaised
      else if u = ''http://localhost:8004'' then HealthReturned None
      else HealthReturned (Some ''starting''))"

section \<open>Properties of the worker\<close>

lemma hex_value_hex_digit: "n < 16 \<Longrightarrow> hex_value (hex_digit n) = Some n"
  by (auto simp: hex_value_def hex_digit_def Let_def)

lemma hex_digit_not_space: "n < 16 \<Longrightarrow> \<not> is_ascii_space (hex_digit n)"
  by (auto simp: is_ascii_space_def hex_digit_def)

lemma bytes_fromhex_hex: "bytes_fromhex (bytes_hex bs) = Some bs"
proof (induction bs)
  case Nil
  show ?case by (simp add: bytes_hex_def)
next
  case (Cons b bs)
  have "unat b < 2 ^ LENGTH(8)" by (rule unsigned_less)
  then have hi: "unat b div 16 < 16" by simp
  have lo: "unat b mod 16 < 16" by simp
  from Cons show ?case
    by (simp add: bytes_hex_def hex_value_hex_digit [OF hi] hex_value_hex_digit [OF lo]
        hex_digit_not_space [OF hi] del: of_nat_add of_nat_mult)
qed


lemma get_cache_path_shared:
  "CACHE_DIR env2 = CACHE_DIR env1 \<Longrightarrow> get_cache_path env2 k = get_cache_path env1 k"
  by (simp add: get_cache_path_def)

lemma read_after_write:
  assumes "CACHE_DIR env2 = CACHE_DIR env1"
  shows "read_from_cache md5_hexdigest env2 url now
           (write_to_cache md5_hexdigest env1 url data stamp written fs) =
         (if now - written < CACHE_TTL
          then (Some \<lparr>members = cache_data url data stamp, binary = content data\<rparr>,
                write_to_cache md5_hexdigest env1 url data stamp written fs)
          else (None, (write_to_cache md5_hexdigest env1 url data stamp written fs)
                        (get_cache_path env1 (get_cache_key md5_hexdigest url) := None)))"
proof -
  have hex: "map_of (cache_data url data stamp) ''content_hex''
               = Some (JString (bytes_hex (content data)))"
    by (simp add: cache_data_def)
  show ?thesis
    unfolding read_from_cache_def write_to_cache_def Let_def
      get_cache_path_shared [OF assms]
    by (simp add: hex bytes_fromhex_hex)
qed

lemma read_from_cache_miss_fs:
  "read_from_cache md5_hexdigest env url now fs = (None, fs') \<Longrightarrow>
   fs' = (case fs (get_cache_path env (get_cache_key md5_hexdigest url)) of
            None \<Rightarrow> fs
          | Some f \<Rightarrow> if now - mtime f < CACHE_TTL then fs
                      else fs(get_cache_path env (get_cache_key md5_hexdigest url) := None))"
  by (auto simp: read_from_cache_def Let_def
      split: option.splits if_splits json.splits)


subsection \<open>Expiry on read\<close>

text \<open>
  C2. A stored cache entry is a file that \<open>write_to_cache\<close> wrote; its write timestamp
  \<open>T\<close> is the file's modification time, which is what \<open>read_from_cache\<close> compares
  with the clock (the \<open>timestamp\<close> member of the document is not consulted). For a read
  at time \<open>now\<close>: the entry is returned, and the cache left as it is, if and only if
  \<open>now - T < TTL\<close> with \<open>TTL = 60\<close>; otherwise the read deletes the file and returns
  nothing.
\<close>

theorem read_from_cache_ttl:
  assumes "fs (get_cache_path env (get_cache_key md5_hexdigest url))
             = Some \<lparr>mtime = T, parsed = Some (JObject (cache_data url data stamp))\<rparr>"
  shows "CACHE_TTL = 60 \<and>
         ((fst (read_from_cache md5_hexdigest env url now fs) \<noteq> None) = (now - T < 60)) \<and>
         read_from_cache md5_hexdigest env url now fs =
           (if now - T < CACHE_TTL
            then (Some \<lparr>members = cache_data url data stamp, binary = content data\<rparr>, fs)
            else (None, fs(get_cache_path env (get_cache_key md5_hexdigest url) := None)))"
proof -
  have hex: "map_of (cache_data url data stamp) ''content_hex''
               = Some (JString (bytes_hex (content data)))"
    by (simp add: cache_data_def)
  have ttl: "CACHE_TTL = 60" by (simp add: CACHE_TTL_def)
  have rd: "read_from_cache md5_hexdigest env url now fs =
           (if now - T < CACHE_TTL
            then (Some \<lparr>members = cache_data url data stamp, binary = content data\<rparr>, fs)
            else (None, fs(get_cache_path env (get_cache_key md5_hexdigest url) := None)))"
    unfolding read_from_cache_def Let_def using assms
    by (simp add: hex bytes_fromhex_hex)
  from rd have "(fst (read_from_cache md5_hexdigest env url now fs) \<noteq> None) = (now - T < 60)"
    by (simp add: ttl)
  with ttl rd show ?thesis by blast
qed

theorem read_from_cache_ttl_witness:
  "\<forall>md5_hexdigest.
     fst (read_from_cache md5_hexdigest ex_env2 ex_url (1059 + 9 / 10)
            (write_to_cache md5_hexdigest ex_env ex_url ex_result 1000 1000 Map.empty))
       = Some \<lparr>members = cache_data ex_url ex_result 1000, binary = [0x3C, 0x70, 0x3E, 0x00, 0xFF]\<rparr>
   \<and> read_from_cache md5_hexdigest ex_env2 ex_url 1060
            (write_to_cache md5_hexdigest ex_env ex_url ex_result 1000 1000 Map.empty)
       = (None, Map.empty)"
proof (intro allI)
  fix md5_hexdigest :: "bytes \<Rightarrow> string"
  let ?fs = "write_to_cache md5_hexdigest ex_env ex_url ex_result 1000 1000 Map.empty"
  have p: "get_cache_path ex_env2 (get_cache_key md5_hexdigest ex_url)
             = get_cache_path ex_env (get_cache_key md5_hexdigest ex_url)"
    by (simp add: get_cache_path_def ex_env_def ex_env2_def)
  have stored: "?fs (get_cache_path ex_env2 (get_cache_key md5_hexdigest ex_url))
                  = Some \<lparr>mtime = 1000, parsed = Some (JObject (cache_data ex_url ex_result 1000))\<rparr>"
    by (simp add: p write_to_cache_def)
  have c: "content ex_result = [0x3C, 0x70, 0x3E, 0x00, 0xFF]"
    by (simp add: ex_result_def)
  have gone: "?fs(get_cache_path ex_env2 (get_cache_key md5_hexdigest ex_url) := None) = Map.empty"
    by (simp add: p write_to_cache_def)
  show "fst (read_from_cache md5_hexdigest ex_env2 ex_url (1059 + 9 / 10) ?fs)
          = Some \<lparr>members = cache_data ex_url ex_result 1000, binary = [0x3C, 0x70, 0x3E, 0x00, 0xFF]\<rparr>
        \<and> read_from_cache md5_hexdigest ex_env2 ex_url 1060 ?fs = (None, Map.empty)"
    using read_from_cache_ttl [where fs = ?fs and env = ex_env2 and now = "1059 + 9 / 10", OF stored]
      read_from_cache_ttl [where fs = ?fs and env = ex_env2 and now = 1060, OF stored]
    by (simp add: c gone)
qed


subsection \<open>Consistency across workers\<close>

lemma fetch_url_fresh:
  assumes "fetch_url md5_hexdigest env url clock (Response st hs body) fs = (Inr r, fs1)"
    and "cached r = False"
  shows "r = \<lparr>status = JInt st, headers = JObject (map (\<lambda>(k, v). (k, JString v)) hs),
              content = body, cached = False, worker = worker_id env, error = None\<rparr>
         \<and> fs1 = write_to_cache md5_hexdigest env url r (t_stamp clock) (t_written clock)
                  (snd (read_from_cache md5_hexdigest env url (t_read clock) fs))"
proof (cases "read_from_cache md5_hexdigest env url (t_read clock) fs")
  case (Pair hit fs')
  show ?thesis
  proof (cases hit)
    case None
    with Pair assms(1) show ?thesis
      by (auto simp: fetch_url_def Let_def)
  next
    case (Some c)
    with Pair assms show ?thesis
      by (auto simp: fetch_url_def split: option.splits)
  qed
qed

text \<open>
  C1. Let a fetch of \<open>url\<close> by a worker reach the origin server, get a response and
  store it (its result \<open>r1\<close> has \<open>cached = False\<close>; the cache afterwards is \<open>fs1\<close>). Then
  a fetch of the same URL by any worker using the same cache directory, at a time less
  than the TTL after the file was written, reads the stored entry back unchanged
  (the hexadecimal body decodes to the same bytes, status and headers are the stored
  members), returns the status, headers and body of \<open>r1\<close> with \<open>cached = True\<close> whatever
  the origin server would answer now, and leaves the cache as it is, so the same holds
  for every further fetch in the window.
\<close>

theorem fetch_url_shared_cache_hit:
  assumes "fetch_url md5_hexdigest env1 url clock1 (Response st hs body) fs0 = (Inr r1, fs1)"
    and "cached r1 = False"
    and "CACHE_DIR env2 = CACHE_DIR env1"
    and "t_read clock2 - t_written clock1 < CACHE_TTL"
  shows "status r1 = JInt st \<and> content r1 = body
         \<and> read_from_cache md5_hexdigest env2 url (t_read clock2) fs1
             = (Some \<lparr>members = cache_data url r1 (t_stamp clock1), binary = body\<rparr>, fs1)
         \<and> map_of (cache_data url r1 (t_stamp clock1)) ''status'' = Some (status r1)
         \<and> map_of (cache_data url r1 (t_stamp clock1)) ''headers'' = Some (headers r1)
         \<and> fetch_url md5_hexdigest env2 url clock2 up2 fs1
             = (Inr (r1\<lparr>cached := True, worker := worker_id env2\<rparr>), fs1)"
proof -
  from fetch_url_fresh [OF assms(1,2)]
  have r1: "r1 = \<lparr>status = JInt st, headers = JObject (map (\<lambda>(k, v). (k, JString v)) hs),
                  content = body, cached = False, worker = worker_id env1, error = None\<rparr>"
    and fs1: "fs1 = write_to_cache md5_hexdigest env1 url r1 (t_stamp clock1) (t_written clock1)
                      (snd (read_from_cache md5_hexdigest env1 url (t_read clock1) fs0))"
    by simp_all
  have body: "content r1 = body" and st: "status r1 = JInt st" and err: "error r1 = None"
    by (simp_all add: r1)
  have rd: "read_from_cache md5_hexdigest env2 url (t_read clock2) fs1
              = (Some \<lparr>members = cache_data url r1 (t_stamp clock1), binary = body\<rparr>, fs1)"
    by (subst (1 2) fs1) (simp add: read_after_write [OF assms(3)] assms(4) body)
  have ms: "map_of (cache_data url r1 (t_stamp clock1)) ''status'' = Some (status r1)"
    and mh: "map_of (cache_data url r1 (t_stamp clock1)) ''headers'' = Some (headers r1)"
    by (simp_all add: cache_data_def)
  have "fetch_url md5_hexdigest env2 url clock2 up2 fs1
          = (Inr (r1\<lparr>cached := True, worker := worker_id env2\<rparr>), fs1)"
    by (simp add: fetch_url_def rd ms mh) (simp add: r1)
  with st body rd ms mh show ?thesis by blast
qed


theorem fetch_url_shared_cache_hit_witness:
  "\<forall>md5_hexdigest.
     fetch_url md5_hexdigest ex_env ex_url (ex_clock 1000) ex_upstream Map.empty
       = (Inr ex_result, write_to_cache md5_hexdigest ex_env ex_url ex_result 1000 1000 Map.empty)
   \<and> cached ex_result = False
   \<and> CACHE_DIR ex_env2 = CACHE_DIR ex_env
   \<and> t_read (ex_clock 1030) - t_written (ex_clock 1000) < CACHE_TTL
   \<and> fetch_url md5_hexdigest ex_env2 ex_url (ex_clock 1030) (OtherError ''timed out'')
         (write_to_cache md5_hexdigest ex_env ex_url ex_result 1000 1000 Map.empty)
       = (Inr \<lparr>status = JInt 200, headers = JObject [(''Content-Type'', JString ''text/html'')],
               content = [0x3C, 0x70, 0x3E, 0x00, 0xFF], cached = True,
               worker = ''worker-2'', error = None\<rparr>,
          write_to_cache md5_hexdigest ex_env ex_url ex_result 1000 1000 Map.empty)"
proof (intro allI)
  fix md5_hexdigest :: "bytes \<Rightarrow> string"
  let ?fs1 = "write_to_cache md5_hexdigest ex_env ex_url ex_result 1000 1000 Map.empty"
  have first: "fetch_url md5_hexdigest ex_env ex_url (ex_clock 1000) ex_upstream Map.empty
                 = (Inr ex_result, ?fs1)"
    by (simp add: fetch_url_def read_from_cache_def ex_upstream_def ex_result_def ex_clock_def
        worker_id_def ex_env_def Let_def)
  have fresh: "cached ex_result = False"
    by (simp add: ex_result_def)
  have shared: "CACHE_DIR ex_env2 = CACHE_DIR ex_env"
    by (simp add: ex_env_def ex_env2_def)
  have window: "t_read (ex_clock 1030) - t_written (ex_clock 1000) < CACHE_TTL"
    by (simp add: ex_clock_def CACHE_TTL_def)
  have second: "fetch_url md5_hexdigest ex_env2 ex_url (ex_clock 1030) (OtherError ''timed out'') ?fs1
                  = (Inr (ex_result\<lparr>cached := True, worker := worker_id ex_env2\<rparr>), ?fs1)"
    using fetch_url_shared_cache_hit
      [where ?fs0.0 = Map.empty and ?fs1.0 = ?fs1 and ?up2.0 = "OtherError ''timed out''",
        unfolded ex_upstream_def, OF first [unfolded ex_upstream_def] fresh shared window]
    by simp
  have r2: "ex_result\<lparr>cached := True, worker := worker_id ex_env2\<rparr>
              = \<lparr>status = JInt 200, headers = JObject [(''Content-Type'', JString ''text/html'')],
                  content = [0x3C, 0x70, 0x3E, 0x00, 0xFF], cached = True,
                  worker = ''worker-2'', error = None\<rparr>"
    by (simp add: ex_result_def worker_id_def ex_env2_def)
  from first fresh shared window second [unfolded r2]
  show "fetch_url md5_hexdigest ex_env ex_url (ex_clock 1000) ex_upstream Map.empty
       = (Inr ex_result, ?fs1)
   \<and> cached ex_result = False
   \<and> CACHE_DIR ex_env2 = CACHE_DIR ex_env
   \<and> t_read (ex_clock 1030) - t_written (ex_clock 1000) < CACHE_TTL
   \<and> fetch_url md5_hexdigest ex_env2 ex_url (ex_clock 1030) (OtherError ''timed out'') ?fs1
       = (Inr \<lparr>status = JInt 200, headers = JObject [(''Content-Type'', JString ''text/html'')],
               content = [0x3C, 0x70, 0x3E, 0x00, 0xFF], cached = True,
               worker = ''worker-2'', error = None\<rparr>, ?fs1)"
    by blast
qed

subsection \<open>Failed fetches\<close>

lemma read_from_cache_content:
  "fst (read_from_cache md5_hexdigest env url now fs) =
     (case cache_content now fs (get_cache_path env (get_cache_key md5_hexdigest url)) of
        Some f \<Rightarrow>
          (case parsed f of
             Some (JObject data) \<Rightarrow>
               (case map_of data ''content_hex'' of
                  Some (JString h) \<Rightarrow>
                    (case bytes_fromhex h of
                       Some b \<Rightarrow> Some \<lparr>members = data, binary = b\<rparr>
                     | None \<Rightarrow> None)
                | _ \<Rightarrow> None)
           | _ \<Rightarrow> None)
      | None \<Rightarrow> None)"
  by (simp add: read_from_cache_def cache_content_def Let_def
      split: option.splits json.splits)

lemma failed_fetch_cache:
  assumes "fst (read_from_cache md5_hexdigest env url (t_read clock) fs) = None"
    and "up = HTTPError code msg \<or> up = OtherError msg"
  shows "snd (fetch_url md5_hexdigest env url clock up fs)
           = (case fs (get_cache_path env (get_cache_key md5_hexdigest url)) of
                None \<Rightarrow> fs
              | Some f \<Rightarrow>
                 if t_read clock - mtime f < CACHE_TTL then fs
                 else fs(get_cache_path env (get_cache_key md5_hexdigest url) := None))"
proof -
  obtain fs' where rd: "read_from_cache md5_hexdigest env url (t_read clock) fs = (None, fs')"
    using assms(1) by (cases "read_from_cache md5_hexdigest env url (t_read clock) fs") simp
  note fs' = read_from_cache_miss_fs [OF rd]
  from assms(2) show ?thesis
    by (auto simp: fetch_url_def rd fs')
qed

lemma failed_fetch_content:
  assumes "fst (read_from_cache md5_hexdigest env url (t_read clock) fs) = None"
    and "up = HTTPError code msg \<or> up = OtherError msg"
    and "t_read clock \<le> now"
  shows "cache_content now (snd (fetch_url md5_hexdigest env url clock up fs)) p = cache_content now fs p"
  using assms(3)
  by (auto simp: failed_fetch_cache [OF assms(1,2)] cache_content_def split: option.splits)

text \<open>
  C4. Let a fetch miss the cache and the request to the origin server fail. The result
  carries the status code of the failure when it is an \<open>HTTPError\<close> and 500 otherwise,
  the error message under \<open>error\<close>, and \<open>cached = False\<close>. No entry is written: every
  file in the cache after the call was there before, unchanged, and no path other than
  the one of the URL's key is touched. The cache content is
  unchanged under the URL's key and under every other path: at any time from the call
  on, the valid entry under a path is the same as it would be without the call, and
  every lookup by any worker for any URL returns what it would have returned. (The
  lookup that opens the call removes the file under the URL's key when it has expired;
  such an entry is already absent from the content.)
\<close>

theorem fetch_url_upstream_failure:
  assumes "fst (read_from_cache md5_hexdigest env url (t_read clock) fs) = None"
    and "up = HTTPError code msg \<or> up = OtherError msg"
  shows "fst (fetch_url md5_hexdigest env url clock up fs)
           = Inr \<lparr>status = JInt (if up = HTTPError code msg then code else 500),
                  headers = JObject [], content = str_encode msg, cached = False,
                  worker = worker_id env, error = Some msg\<rparr>
         \<and> (\<forall>p f. snd (fetch_url md5_hexdigest env url clock up fs) p = Some f \<longrightarrow> fs p = Some f)
         \<and> (\<forall>p. p \<noteq> get_cache_path env (get_cache_key md5_hexdigest url) \<longrightarrow>
               snd (fetch_url md5_hexdigest env url clock up fs) p = fs p)
         \<and> (\<forall>now p. t_read clock \<le> now \<longrightarrow>
               cache_content now (snd (fetch_url md5_hexdigest env url clock up fs)) p
                 = cache_content now fs p)
         \<and> (\<forall>now env' url'. t_read clock \<le> now \<longrightarrow>
               fst (read_from_cache md5_hexdigest env' url' now
                      (snd (fetch_url md5_hexdigest env url clock up fs)))
                 = fst (read_from_cache md5_hexdigest env' url' now fs))"
proof -
  obtain fs' where rd: "read_from_cache md5_hexdigest env url (t_read clock) fs = (None, fs')"
    using assms(1) by (cases "read_from_cache md5_hexdigest env url (t_read clock) fs") simp
  have res: "fst (fetch_url md5_hexdigest env url clock up fs)
           = Inr \<lparr>status = JInt (if up = HTTPError code msg then code else 500),
                  headers = JObject [], content = str_encode msg, cached = False,
                  worker = worker_id env, error = Some msg\<rparr>"
    using assms(2) by (auto simp: fetch_url_def rd)
  have kept: "\<forall>p f. snd (fetch_url md5_hexdigest env url clock up fs) p = Some f \<longrightarrow> fs p = Some f"
    by (auto simp: failed_fetch_cache [OF assms] split: option.splits if_splits)
  have others: "\<forall>p. p \<noteq> get_cache_path env (get_cache_key md5_hexdigest url) \<longrightarrow>
               snd (fetch_url md5_hexdigest env url clock up fs) p = fs p"
    by (auto simp: failed_fetch_cache [OF assms] split: option.splits)
  have same: "\<forall>now p. t_read clock \<le> now \<longrightarrow>
               cache_content now (snd (fetch_url md5_hexdigest env url clock up fs)) p
                 = cache_content now fs p"
    by (simp add: failed_fetch_content [OF assms])
  have "\<forall>now env' url'. t_read clock \<le> now \<longrightarrow>
               fst (read_from_cache md5_hexdigest env' url' now
                      (snd (fetch_url md5_hexdigest env url clock up fs)))
                 = fst (read_from_cache md5_hexdigest env' url' now fs)"
    by (simp add: read_from_cache_content failed_fetch_content [OF assms])
  with res kept others same show ?thesis by blast
qed


theorem fetch_url_upstream_failure_witness:
  "\<forall>md5_hexdigest.
     fst (read_from_cache md5_hexdigest ex_env ex_url (t_read (ex_clock 1100))
            (write_to_cache md5_hexdigest ex_env ex_url ex_result 1000 1000 Map.empty)) = None
   \<and> fst (fetch_url md5_hexdigest ex_env ex_url (ex_clock 1100) (OtherError ''timed out'')
            (write_to_cache md5_hexdigest ex_env ex_url ex_result 1000 1000 Map.empty))
       = Inr \<lparr>status = JInt 500, headers = JObject [], content = str_encode ''timed out'',
              cached = False, worker = ''worker-1'', error = Some ''timed out''\<rparr>
   \<and> cache_content 1100
         (snd (fetch_url md5_hexdigest ex_env ex_url (ex_clock 1100) (OtherError ''timed out'')
                 (write_to_cache md5_hexdigest ex_env ex_url ex_result 1000 1000 Map.empty)))
         (get_cache_path ex_env (get_cache_key md5_hexdigest ex_url)) = None
   \<and> fst (read_from_cache md5_hexdigest ex_env2 ex_url 1100
            (snd (fetch_url md5_hexdigest ex_env ex_url (ex_clock 1100) (OtherError ''timed out'')
                    (write_to_cache md5_hexdigest ex_env ex_url ex_result 1000 1000 Map.empty))))
       = None
   \<and> fst (read_from_cache md5_hexdigest ex_env ex_url (t_read (ex_clock 1000)) Map.empty) = None
   \<and> fetch_url md5_hexdigest ex_env ex_url (ex_clock 1000)
         (HTTPError 404 ''HTTP Error 404: Not Found'') Map.empty
       = (Inr \<lparr>status = JInt 404, headers = JObject [],
               content = str_encode ''HTTP Error 404: Not Found'', cached = False,
               worker = ''worker-1'', error = Some ''HTTP Error 404: Not Found''\<rparr>, Map.empty)"
proof (intro allI)
  fix md5_hexdigest :: "bytes \<Rightarrow> string"
  let ?fs = "write_to_cache md5_hexdigest ex_env ex_url ex_result 1000 1000 Map.empty"
  let ?p = "get_cache_path ex_env (get_cache_key md5_hexdigest ex_url)"
  let ?run = "fetch_url md5_hexdigest ex_env ex_url (ex_clock 1100) (OtherError ''timed out'') ?fs"
  have w: "worker_id ex_env = ''worker-1''"
    by (simp add: worker_id_def ex_env_def)
  have t: "t_read (ex_clock 1100) = 1100"
    by (simp add: ex_clock_def)
  have expired: "fst (read_from_cache md5_hexdigest ex_env ex_url (t_read (ex_clock 1100)) ?fs) = None"
    by (simp add: read_from_cache_def write_to_cache_def ex_clock_def CACHE_TTL_def)
  note run = fetch_url_upstream_failure [OF expired, of "OtherError ''timed out''" 0 "''timed out''"]
  from run have res: "fst ?run
       = Inr \<lparr>status = JInt 500, headers = JObject [], content = str_encode ''timed out'',
              cached = False, worker = ''worker-1'', error = Some ''timed out''\<rparr>"
    by (simp add: w)
  have before: "cache_content 1100 ?fs ?p = None"
    by (simp add: cache_content_def write_to_cache_def CACHE_TTL_def)
  from run t have "cache_content 1100 (snd ?run) ?p = cache_content 1100 ?fs ?p"
    by simp
  with before have content: "cache_content 1100 (snd ?run) ?p = None"
    by simp
  have "fst (read_from_cache md5_hexdigest ex_env2 ex_url 1100 ?fs) = None"
    by (simp add: read_from_cache_def write_to_cache_def get_cache_path_def ex_env_def ex_env2_def
        CACHE_TTL_def)
  moreover from run t
  have "fst (read_from_cache md5_hexdigest ex_env2 ex_url 1100 (snd ?run))
          = fst (read_from_cache md5_hexdigest ex_env2 ex_url 1100 ?fs)"
    by simp
  ultimately have lookup: "fst (read_from_cache md5_hexdigest ex_env2 ex_url 1100 (snd ?run)) = None"
    by simp
  have miss: "fst (read_from_cache md5_hexdigest ex_env ex_url (t_read (ex_clock 1000)) Map.empty) = None"
    by (simp add: read_from_cache_def)
  note e = fetch_url_upstream_failure [OF miss, of "HTTPError 404 ''HTTP Error 404: Not Found''" 404
      "''HTTP Error 404: Not Found''"]
  from e have "\<forall>p. snd (fetch_url md5_hexdigest ex_env ex_url (ex_clock 1000)
         (HTTPError 404 ''HTTP Error 404: Not Found'') Map.empty) p = None"
    by (metis option.exhaust option.distinct(1))
  then have "snd (fetch_url md5_hexdigest ex_env ex_url (ex_clock 1000)
         (HTTPError 404 ''HTTP Error 404: Not Found'') Map.empty) = Map.empty"
    by (simp add: fun_eq_iff)
  moreover from e have "fst (fetch_url md5_hexdigest ex_env ex_url (ex_clock 1000)
         (HTTPError 404 ''HTTP Error 404: Not Found'') Map.empty)
       = Inr \<lparr>status = JInt 404, headers = JObject [],
               content = str_encode ''HTTP Error 404: Not Found'', cached = False,
               worker = ''worker-1'', error = Some ''HTTP Error 404: Not Found''\<rparr>"
    by (simp add: w)
  ultimately have notfound: "fetch_url md5_hexdigest ex_env ex_url (ex_clock 1000)
         (HTTPError 404 ''HTTP Error 404: Not Found'') Map.empty
       = (Inr \<lparr>status = JInt 404, headers = JObject [],
               content = str_encode ''HTTP Error 404: Not Found'', cached = False,
               worker = ''worker-1'', error = Some ''HTTP Error 404: Not Found''\<rparr>, Map.empty)"
    by (simp add: prod_eq_iff)
  from expired res content lookup miss notfound
  show "fst (read_from_cache md5_hexdigest ex_env ex_url (t_read (ex_clock 1100)) ?fs) = None
   \<and> fst ?run
       = Inr \<lparr>status = JInt 500, headers = JObject [], content = str_encode ''timed out'',
              cached = False, worker = ''worker-1'', error = Some ''timed out''\<rparr>
   \<and> cache_content 1100 (snd ?run) ?p = None
   \<and> fst (read_from_cache md5_hexdigest ex_env2 ex_url 1100 (snd ?run)) = None
   \<and> fst (read_from_cache md5_hexdigest ex_env ex_url (t_read (ex_clock 1000)) Map.empty) = None
   \<and> fetch_url md5_hexdigest ex_env ex_url (ex_clock 1000)
         (HTTPError 404 ''HTTP Error 404: Not Found'') Map.empty
       = (Inr \<lparr>status = JInt 404, headers = JObject [],
               content = str_encode ''HTTP Error 404: Not Found'', cached = False,
               worker = ''worker-1'', error = Some ''HTTP Error 404: Not Found''\<rparr>, Map.empty)"
    by blast
qed

text \<open>
  The one file a failed fetch can remove: worker 1 stored the entry at time 1000; at
  time 1100 the fetch finds it expired and deletes it, and the request to the origin
  server times out.
\<close>

lemma failed_fetch_removes_expired_entry:
  "\<forall>md5_hexdigest.
     fst (fetch_url md5_hexdigest ex_env ex_url (ex_clock 1100) (OtherError ''timed out'')
            (write_to_cache md5_hexdigest ex_env ex_url ex_result 1000 1000 Map.empty))
       = Inr \<lparr>status = JInt 500, headers = JObject [], content = str_encode ''timed out'',
              cached = False, worker = ''worker-1'', error = Some ''timed out''\<rparr>
   \<and> (write_to_cache md5_hexdigest ex_env ex_url ex_result 1000 1000 Map.empty)
         (get_cache_path ex_env (get_cache_key md5_hexdigest ex_url))
       = Some \<lparr>mtime = 1000, parsed = Some (JObject (cache_data ex_url ex_result 1000))\<rparr>
   \<and> snd (fetch_url md5_hexdigest ex_env ex_url (ex_clock 1100) (OtherError ''timed out'')
            (write_to_cache md5_hexdigest ex_env ex_url ex_result 1000 1000 Map.empty))
         (get_cache_path ex_env (get_cache_key md5_hexdigest ex_url))
       = None"
  by (simp add: fetch_url_def read_from_cache_def write_to_cache_def ex_clock_def CACHE_TTL_def
      worker_id_def ex_env_def)


section \<open>Properties of the proxy\<close>

subsection \<open>Round robin\<close>

lemma do_GET_no_worker:
  "active_workers st = [] \<Longrightarrow> do_GET rpc req st = no_worker req st"
  by (simp add: do_GET_def get_worker_def)

text \<open>
  C3. With a non-empty active set of length \<open>n\<close> and the counter at \<open>c\<close>, \<open>get_worker\<close>
  returns the entry at position \<open>c mod n\<close> (a position inside the list) and adds exactly
  one to the counter, changing nothing else. With an empty active set it returns
  \<open>None\<close>, and its caller \<open>do_GET\<close> answers 503 at once: no RPC is made and the selection
  is not repeated.
\<close>

theorem get_worker_round_robin:
  "(active_workers st \<noteq> [] \<longrightarrow>
      get_worker st = (Some (active_workers st ! nat (index st mod int (length (active_workers st)))),
                       st\<lparr>index := index st + 1\<rparr>)
      \<and> nat (index st mod int (length (active_workers st))) < length (active_workers st))
   \<and> (active_workers st = [] \<longrightarrow>
        fst (get_worker st) = None
        \<and> response (do_GET rpc req st) = [SendError 503 ''No RPC workers available'']
        \<and> rpc_calls (do_GET rpc req st) = [])"
proof (intro conjI impI)
  assume ne: "active_workers st \<noteq> []"
  then show "get_worker st = (Some (active_workers st ! nat (index st mod int (length (active_workers st)))),
                       st\<lparr>index := index st + 1\<rparr>)"
    by (simp add: get_worker_def)
  from ne have "0 < int (length (active_workers st))" by simp
  then have "index st mod int (length (active_workers st)) < int (length (active_workers st))"
    and "0 \<le> index st mod int (length (active_workers st))"
    by simp_all
  then show "nat (index st mod int (length (active_workers st))) < length (active_workers st)"
    by linarith
next
  assume e: "active_workers st = []"
  then show "fst (get_worker st) = None" by (simp add: get_worker_def)
  from e show "response (do_GET rpc req st) = [SendError 503 ''No RPC workers available'']"
    by (simp add: do_GET_no_worker no_worker_def)
  from e show "rpc_calls (do_GET rpc req st) = []"
    by (simp add: do_GET_no_worker no_worker_def)
qed

theorem get_worker_round_robin_witness:
  "active_workers ex_pool \<noteq> []
   \<and> get_worker ex_pool = (Some ''http://localhost:8002'', ex_pool\<lparr>index := 4\<rparr>)
   \<and> get_worker (ex_pool\<lparr>index := 4\<rparr>) = (Some ''http://localhost:8001'', ex_pool\<lparr>index := 5\<rparr>)
   \<and> active_workers ex_idle = []
   \<and> fst (get_worker ex_idle) = None
   \<and> response (do_GET ex_rpc_down ex_request ex_idle) = [SendError 503 ''No RPC workers available'']
   \<and> rpc_calls (do_GET ex_rpc_down ex_request ex_idle) = []"
proof -
  have a: "active_workers ex_pool \<noteq> []" and a': "active_workers (ex_pool\<lparr>index := 4\<rparr>) \<noteq> []"
    by (simp_all add: ex_pool_def)
  have b: "active_workers ex_idle = []"
    by (simp add: ex_idle_def)
  have one: "get_worker ex_pool = (Some ''http://localhost:8002'', ex_pool\<lparr>index := 4\<rparr>)"
    using get_worker_round_robin [of ex_pool ex_rpc_down ex_request] a
    by (simp add: ex_pool_def)
  have two: "get_worker (ex_pool\<lparr>index := 4\<rparr>) = (Some ''http://localhost:8001'', ex_pool\<lparr>index := 5\<rparr>)"
    using get_worker_round_robin [of "ex_pool\<lparr>index := 4\<rparr>" ex_rpc_down ex_request] a'
    by (simp add: ex_pool_def)
  from a b one two get_worker_round_robin [of ex_idle ex_rpc_down ex_request]
  show ?thesis by blast
qed

text \<open>
  C10. A call of \<open>get_worker\<close> with an empty active set leaves the whole state, the
  counter included, as it was; the counter moves by one exactly when a worker is
  returned. A request handled while the active set is empty therefore leaves the
  counter where it was.
\<close>

theorem get_worker_empty_keeps_counter:
  "(active_workers st = [] \<longrightarrow>
      snd (get_worker st) = st \<and> index (new_state (do_GET rpc req st)) = index st)
   \<and> index (snd (get_worker st)) = (if fst (get_worker st) = None then index st else index st + 1)"
  by (simp add: get_worker_def do_GET_no_worker no_worker_def)

theorem get_worker_empty_keeps_counter_witness:
  "active_workers ex_idle = []
   \<and> snd (get_worker ex_idle) = ex_idle
   \<and> index (new_state (do_GET ex_rpc_down ex_request ex_idle)) = 7
   \<and> index (snd (get_worker ex_pool)) = 4"
proof -
  have b: "active_workers ex_idle = []" and i: "index ex_idle = 7"
    by (simp_all add: ex_idle_def)
  have p: "fst (get_worker ex_pool) \<noteq> None" and j: "index ex_pool = 3"
    by (simp_all add: get_worker_def ex_pool_def)
  from b i get_worker_empty_keeps_counter [of ex_idle ex_rpc_down ex_request]
  have "snd (get_worker ex_idle) = ex_idle"
    and "index (new_state (do_GET ex_rpc_down ex_request ex_idle)) = 7"
    by simp_all
  moreover from p j get_worker_empty_keeps_counter [of ex_pool ex_rpc_down ex_request]
  have "index (snd (get_worker ex_pool)) = 4"
    by simp
  ultimately show ?thesis using b by blast
qed


subsection \<open>Translating a reply\<close>

lemma lower_char_ascii:
  assumes "(of_char x :: nat) < 128"
  shows "(lower_char c = x) = (ascii_lower c = x)"
proof -
  have c: "(of_char c :: nat) < 256" by simp
  show ?thesis
  proof (cases "192 \<le> (of_char c :: nat) \<and> (of_char c :: nat) \<le> 222 \<and> (of_char c :: nat) \<noteq> 215")
    case False
    then show ?thesis
      by (auto simp: lower_char_def ascii_lower_def Let_def)
  next
    case True
    then have l: "lower_char c = char_of ((of_char c :: nat) + 32)" and a: "ascii_lower c = c"
      by (simp_all add: lower_char_def ascii_lower_def)
    from True have "(of_char (char_of ((of_char c :: nat) + 32)) :: nat) = of_char c + 32"
      by simp
    with True assms have "char_of ((of_char c :: nat) + 32) \<noteq> x" by auto
    moreover from True assms have "c \<noteq> x" by auto
    ultimately show ?thesis by (simp add: l a)
  qed
qed

lemma py_lower_ascii:
  "\<forall>x \<in> set t. (of_char x :: nat) < 128 \<Longrightarrow> (py_lower k = t) = (map ascii_lower k = t)"
proof (induction k arbitrary: t)
  case Nil
  show ?case by (simp add: py_lower_def)
next
  case (Cons c k)
  show ?case
  proof (cases t)
    case Nil
    then show ?thesis by (simp add: py_lower_def)
  next
    case (Cons x t')
    with Cons.prems have x: "(of_char x :: nat) < 128" and t': "\<forall>y \<in> set t'. (of_char y :: nat) < 128"
      by simp_all
    from Cons.IH [OF t'] lower_char_ascii [OF x, of c] Cons show ?thesis
      by (simp add: py_lower_def)
  qed
qed

lemma stripped_iff_spec:
  "(py_lower key \<in> set [''transfer-encoding'', ''connection'']) = spec_stripped key"
proof -
  have "(py_lower key = ''transfer-encoding'') = (map ascii_lower key = ''transfer-encoding'')"
    by (rule py_lower_ascii) simp
  moreover have "(py_lower key = ''connection'') = (map ascii_lower key = ''connection'')"
    by (rule py_lower_ascii) simp
  moreover have "map ascii_lower ''Transfer-Encoding'' = ''transfer-encoding''"
    by code_simp
  moreover have "map ascii_lower ''Connection'' = ''connection''"
    by code_simp
  ultimately show ?thesis
    by (simp add: spec_stripped_def same_header_name_def)
qed

lemma forwarded_headers_spec:
  "forwarded_headers hs = map (\<lambda>(k, v). SendHeader k v) (filter (\<lambda>(k, v). \<not> spec_stripped k) hs)"
proof -
  have "(\<lambda>(key, v :: string). py_lower key \<notin> set [''transfer-encoding'', ''connection''])
          = (\<lambda>(k, v). \<not> spec_stripped k)"
    by (simp only: stripped_iff_spec)
  then show ?thesis by (simp only: forwarded_headers_def)
qed


lemma digit_char_values:
  "digit_char 0 = CHR ''0''" "digit_char 1 = CHR ''1''" "digit_char (Suc 0) = CHR ''1''"
  "digit_char 2 = CHR ''2''" "digit_char 3 = CHR ''3''" "digit_char 4 = CHR ''4''"
  "digit_char 5 = CHR ''5''" "digit_char 6 = CHR ''6''" "digit_char 7 = CHR ''7''"
  "digit_char 8 = CHR ''8''" "digit_char 9 = CHR ''9''"
  by code_simp+

lemma do_GET_replied:
  assumes "get_worker st = (Some worker_url, st1)" and "worker_url \<noteq> []"
    and "rpc worker_url (target_url req) = RpcReturned result"
    and "r_status result = Some code" and "r_content result = Some body"
  shows "do_GET rpc req st =
     \<lparr>new_state = st1\<lparr>access_log :=
        log_access (log_timestamp req) (client_ip req) ''GET'' (target_url req) code
          (case r_worker result of Some w \<Rightarrow> w | None \<Rightarrow> worker_url)
          (case r_cached result of Some c \<Rightarrow> c | None \<Rightarrow> False)
          ((t_reply req - t_start req) * 1000) (access_log st1)\<rparr>,
      response = [SendResponse code]
        @ forwarded_headers (case r_headers result of Some hs \<Rightarrow> hs | None \<Rightarrow> [])
        @ [SendHeader ''X-Proxy'' ''RPC-Proxy'',
           SendHeader ''X-Worker'' (case r_worker result of Some w \<Rightarrow> w | None \<Rightarrow> worker_url),
           SendHeader ''X-Cached'' (str_bool (case r_cached result of Some c \<Rightarrow> c | None \<Rightarrow> False)),
           SendHeader ''X-Response-Time'' (format_2f ((t_reply req - t_start req) * 1000) @ ''ms''),
           EndHeaders]
        @ [Write body],
      rpc_calls = [(worker_url, target_url req)]\<rparr>"
  using assms by (simp add: do_GET_def Let_def)

lemma proxy_header_names:
  "\<not> spec_stripped ''X-Proxy''" "\<not> spec_stripped ''X-Worker''"
  "\<not> spec_stripped ''X-Cached''" "\<not> spec_stripped ''X-Response-Time''"
  by code_simp+

text \<open>
  C7. Let a worker be selected and its reply carry a status and a body. The calls made
  on the client response are then, in order: the reply's status; one header for each
  reply header whose name is not \<open>Transfer-Encoding\<close> or \<open>Connection\<close> in any letter
  case, with its value, in the reply's order; \<open>X-Proxy\<close>; \<open>X-Worker\<close> with the worker
  identifier of the reply (the selected worker's URL when the reply has none);
  \<open>X-Cached\<close> with the reply's cache flag; \<open>X-Response-Time\<close> with the elapsed
  milliseconds; the end of the headers; and one write of the reply's body bytes as they
  are. No header with a stripped name is sent.
\<close>

theorem do_GET_translates_reply:
  assumes "get_worker st = (Some worker_url, st1)" and "worker_url \<noteq> []"
    and "rpc worker_url (target_url req) = RpcReturned result"
    and "r_status result = Some code" and "r_content result = Some body"
  shows "response (do_GET rpc req st) =
           [SendResponse code]
           @ map (\<lambda>(k, v). SendHeader k v)
               (filter (\<lambda>(k, v). \<not> spec_stripped k)
                  (case r_headers result of Some hs \<Rightarrow> hs | None \<Rightarrow> []))
           @ [SendHeader ''X-Proxy'' ''RPC-Proxy'',
              SendHeader ''X-Worker'' (case r_worker result of Some w \<Rightarrow> w | None \<Rightarrow> worker_url),
              SendHeader ''X-Cached'' (str_bool (case r_cached result of Some c \<Rightarrow> c | None \<Rightarrow> False)),
              SendHeader ''X-Response-Time'' (format_2f ((t_reply req - t_start req) * 1000) @ ''ms''),
              EndHeaders,
              Write body]
         \<and> (\<forall>k v. SendHeader k v \<in> set (response (do_GET rpc req st)) \<longrightarrow> \<not> spec_stripped k)"
proof -
  have r: "response (do_GET rpc req st) =
           [SendResponse code]
           @ map (\<lambda>(k, v). SendHeader k v)
               (filter (\<lambda>(k, v). \<not> spec_stripped k)
                  (case r_headers result of Some hs \<Rightarrow> hs | None \<Rightarrow> []))
           @ [SendHeader ''X-Proxy'' ''RPC-Proxy'',
              SendHeader ''X-Worker'' (case r_worker result of Some w \<Rightarrow> w | None \<Rightarrow> worker_url),
              SendHeader ''X-Cached'' (str_bool (case r_cached result of Some c \<Rightarrow> c | None \<Rightarrow> False)),
              SendHeader ''X-Response-Time'' (format_2f ((t_reply req - t_start req) * 1000) @ ''ms''),
              EndHeaders,
              Write body]"
    by (simp add: do_GET_replied [where rpc = rpc, OF assms] forwarded_headers_spec)
  have "\<forall>k v. SendHeader k v \<in> set (response (do_GET rpc req st)) \<longrightarrow> \<not> spec_stripped k"
    unfolding r using proxy_header_names by auto
  with r show ?thesis by blast
qed

theorem do_GET_translates_reply_witness:
  "get_worker ex_pool = (Some ''http://localhost:8002'', ex_pool\<lparr>index := 4\<rparr>)
   \<and> ex_rpc_up ex_reply ''http://localhost:8002'' (target_url ex_request) = RpcReturned ex_reply
   \<and> r_status ex_reply = Some 200
   \<and> r_content ex_reply = Some [0x3C, 0x70, 0x3E, 0x00, 0xFF]
   \<and> response (do_GET (ex_rpc_up ex_reply) ex_request ex_pool) =
        [SendResponse 200,
         SendHeader ''Content-Type'' ''text/html'',
         SendHeader ''X-Proxy'' ''RPC-Proxy'',
         SendHeader ''X-Worker'' ''worker-1'',
         SendHeader ''X-Cached'' ''True'',
         SendHeader ''X-Response-Time'' ''250.00ms'',
         EndHeaders,
         Write [0x3C, 0x70, 0x3E, 0x00, 0xFF]]"
proof -
  have sel: "get_worker ex_pool = (Some ''http://localhost:8002'', ex_pool\<lparr>index := 4\<rparr>)"
    by (simp add: get_worker_def ex_pool_def)
  have ne: "''http://localhost:8002'' \<noteq> []" by simp
  have reply: "ex_rpc_up ex_reply ''http://localhost:8002'' (target_url ex_request) = RpcReturned ex_reply"
    by (simp add: ex_rpc_up_def)
  have st: "r_status ex_reply = Some 200"
    and body: "r_content ex_reply = Some [0x3C, 0x70, 0x3E, 0x00, 0xFF]"
    by (simp_all add: ex_reply_def)
  have hs: "map (\<lambda>(k, v). SendHeader k v)
              (filter (\<lambda>(k, v). \<not> spec_stripped k)
                 (case r_headers ex_reply of Some hs \<Rightarrow> hs | None \<Rightarrow> []))
            = [SendHeader ''Content-Type'' ''text/html'']"
    by code_simp
  have "(t_reply ex_request - t_start ex_request) * 1000 = 250"
    by (simp add: ex_request_def)
  moreover have "round_half_even 25000 = 25000"
    by (simp add: round_half_even_def)
  ultimately have t: "format_2f ((t_reply ex_request - t_start ex_request) * 1000) = ''250.00''"
    by (simp add: format_2f_def str_nat.simps digit_char_values)
  have w: "(case r_worker ex_reply of Some w \<Rightarrow> w | None \<Rightarrow> ''http://localhost:8002'') = ''worker-1''"
    and c: "str_bool (case r_cached ex_reply of Some c \<Rightarrow> c | None \<Rightarrow> False) = ''True''"
    by (simp_all add: ex_reply_def str_bool_def)
  from conjunct1 [OF do_GET_translates_reply [where rpc = "ex_rpc_up ex_reply", OF sel ne reply st body],
      unfolded hs t w c]
  have "response (do_GET (ex_rpc_up ex_reply) ex_request ex_pool) =
        [SendResponse 200,
         SendHeader ''Content-Type'' ''text/html'',
         SendHeader ''X-Proxy'' ''RPC-Proxy'',
         SendHeader ''X-Worker'' ''worker-1'',
         SendHeader ''X-Cached'' ''True'',
         SendHeader ''X-Response-Time'' ''250.00ms'',
         EndHeaders,
         Write [0x3C, 0x70, 0x3E, 0x00, 0xFF]]"
    by simp
  with sel reply st body show ?thesis by blast
qed



subsection \<open>Health probing\<close>

lemma endpoints_Cons: "endpoints (w # ws) = endpoints [w] @ endpoints ws"
  by (simp add: endpoints_def)

lemma probe_step_globals: "globals (probe_step health m w) = globals m"
  by (simp add: probe_step_def Let_def split: health_outcome.splits option.splits)

lemma probe_step_probed: "probed (probe_step health m w) = probed m @ endpoints [w]"
  by (simp add: probe_step_def endpoints_def Let_def split: health_outcome.splits option.splits)

lemma probe_step_alive:
  "alive (probe_step health m w)
     = alive m @ filter (\<lambda>u. health u = HealthReturned (Some ''ok'')) (endpoints [w])"
  by (simp add: probe_step_def endpoints_def Let_def split: health_outcome.splits option.splits)

lemma probe_fold:
  "globals (foldl (probe_step health) m ws) = globals m
   \<and> probed (foldl (probe_step health) m ws) = probed m @ endpoints ws
   \<and> alive (foldl (probe_step health) m ws)
       = alive m @ filter (\<lambda>u. health u = HealthReturned (Some ''ok'')) (endpoints ws)"
proof (induction ws arbitrary: m)
  case Nil
  show ?case by (simp add: endpoints_def)
next
  case (Cons w ws)
  show ?case
    by (simp add: Cons.IH probe_step_globals probe_step_probed probe_step_alive
        endpoints_Cons [of w ws])
qed

lemma probe_states_globals:
  "s \<in> set (probe_states health m ws) \<Longrightarrow> globals s = globals m"
  by (induction ws arbitrary: m) (auto simp: probe_step_globals)

lemma probe_states_length: "length (probe_states health m ws) = Suc (length ws)"
  by (induction ws arbitrary: m) auto

lemma check_workers_eq:
  "check_workers health WORKERS st =
     (length (filter (\<lambda>u. health u = HealthReturned (Some ''ok'')) (endpoints WORKERS)),
      st\<lparr>active_workers := filter (\<lambda>u. health u = HealthReturned (Some ''ok'')) (endpoints WORKERS)\<rparr>)"
  by (simp add: check_workers_def probe_all_def Let_def probe_fold)

text \<open>
  C8. One round of \<open>check_workers\<close> over the configured endpoints (the entries of
  \<open>WORKERS\<close>, stripped, blank ones skipped) makes one health call per endpoint, in
  order. An endpoint is in the computed list if and only if its call returned a
  dictionary whose status is \<open>ok\<close>; a call that raised, a reply without a status and
  any other status leave it out. The global state at every point of the round is
  either the state before the round or that state with the active set replaced by the
  whole computed list: the first is the old state, the last the new one, and nothing
  else than the active set changes. The function returns the length of the list.
\<close>

theorem check_workers_live_set:
  "check_workers health WORKERS st =
     (length (filter (\<lambda>u. health u = HealthReturned (Some ''ok'')) (endpoints WORKERS)),
      st\<lparr>active_workers := filter (\<lambda>u. health u = HealthReturned (Some ''ok'')) (endpoints WORKERS)\<rparr>)
   \<and> (\<forall>u. (u \<in> set (active_workers (snd (check_workers health WORKERS st))))
            = (u \<in> set (endpoints WORKERS) \<and> health u = HealthReturned (Some ''ok'')))
   \<and> probed (probe_all health WORKERS st) = endpoints WORKERS
   \<and> (\<forall>s \<in> set (check_workers_states health WORKERS st).
         s = st \<or> s = snd (check_workers health WORKERS st))
   \<and> hd (check_workers_states health WORKERS st) = st
   \<and> last (check_workers_states health WORKERS st) = snd (check_workers health WORKERS st)"
proof -
  have a: "\<forall>u. (u \<in> set (active_workers (snd (check_workers health WORKERS st))))
            = (u \<in> set (endpoints WORKERS) \<and> health u = HealthReturned (Some ''ok''))"
    by (auto simp: check_workers_eq)
  have b: "probed (probe_all health WORKERS st) = endpoints WORKERS"
    by (simp add: probe_all_def probe_fold)
  have c: "\<forall>s \<in> set (check_workers_states health WORKERS st).
         s = st \<or> s = snd (check_workers health WORKERS st)"
    by (auto simp: check_workers_states_def dest: probe_states_globals)
  have d: "hd (check_workers_states health WORKERS st) = st"
    by (cases WORKERS) (simp_all add: check_workers_states_def)
  have e: "last (check_workers_states health WORKERS st) = snd (check_workers health WORKERS st)"
    by (simp add: check_workers_states_def)
  from check_workers_eq a b c d e show ?thesis by blast
qed


theorem check_workers_live_set_witness:
  "check_workers ex_health ex_WORKERS ex_idle
     = (2, ex_idle\<lparr>active_workers := [''http://localhost:8001'', ''http://localhost:8002'']\<rparr>)
   \<and> probed (probe_all ex_health ex_WORKERS ex_idle)
     = [''http://localhost:8001'', ''http://localhost:8002'', ''http://localhost:8003'',
        ''http://localhost:8004'', ''http://localhost:8005'']
   \<and> ex_idle \<in> set (check_workers_states ex_health ex_WORKERS ex_idle)
   \<and> ex_idle\<lparr>active_workers := [''http://localhost:8001'', ''http://localhost:8002'']\<rparr>
       \<in> set (check_workers_states ex_health ex_WORKERS ex_idle)"
proof -
  have live: "filter (\<lambda>u. ex_health u = HealthReturned (Some ''ok'')) (endpoints ex_WORKERS)
                = [''http://localhost:8001'', ''http://localhost:8002'']"
    by code_simp
  have eps: "endpoints ex_WORKERS
               = [''http://localhost:8001'', ''http://localhost:8002'', ''http://localhost:8003'',
                  ''http://localhost:8004'', ''http://localhost:8005'']"
    by code_simp
  have ne: "check_workers_states ex_health ex_WORKERS ex_idle \<noteq> []"
    by (simp add: check_workers_states_def)
  note t = check_workers_live_set [of ex_health ex_WORKERS ex_idle, unfolded live, unfolded eps]
  from t have run: "check_workers ex_health ex_WORKERS ex_idle
     = (2, ex_idle\<lparr>active_workers := [''http://localhost:8001'', ''http://localhost:8002'']\<rparr>)"
    by simp
  from t have calls: "probed (probe_all ex_health ex_WORKERS ex_idle)
     = [''http://localhost:8001'', ''http://localhost:8002'', ''http://localhost:8003'',
        ''http://localhost:8004'', ''http://localhost:8005'']"
    by blast
  from t have "hd (check_workers_states ex_health ex_WORKERS ex_idle) = ex_idle"
    by blast
  with ne have first: "ex_idle \<in> set (check_workers_states ex_health ex_WORKERS ex_idle)"
    using hd_in_set by fastforce
  from t have "last (check_workers_states ex_health ex_WORKERS ex_idle)
                 = snd (check_workers ex_health ex_WORKERS ex_idle)"
    by blast
  with ne run have final: "ex_idle\<lparr>active_workers := [''http://localhost:8001'', ''http://localhost:8002'']\<rparr>
       \<in> set (check_workers_states ex_health ex_WORKERS ex_idle)"
    using last_in_set by fastforce
  from run calls first final show ?thesis by blast
qed


subsection \<open>The access log\<close>

lemma log_access_written:
  "urlparse_netloc url = Some netloc \<Longrightarrow>
   log_access timestamp client method url code worker_name was_cached response_time written
     = written @ [timestamp @ ''|'' @ client @ ''|'' @ method @ ''|'' @ url @ ''|''
         @ (if netloc = [] then ''unknown'' else netloc) @ ''|'' @ str_int code @ ''|''
         @ worker_name @ ''|'' @ str_bool was_cached @ ''|'' @ format_2f response_time @ [CHR 0x0A]]"
  by (simp add: log_access_def)

lemma log_access_dropped:
  "urlparse_netloc url = None \<Longrightarrow>
   log_access timestamp client method url code worker_name was_cached response_time written = written"
  by (simp add: log_access_def)

lemma log_access_length:
  "length (log_access timestamp client method url code worker_name was_cached response_time written)
     = length written + (if urlparse_netloc url = None then 0 else 1)"
  by (auto simp: log_access_def)

text \<open>
  Every run of \<open>do_GET\<close> calls \<open>log_access\<close> once, whatever the outcome: the log grows
  by one line when \<open>urlparse\<close> accepts the target URL and stays as it is when
  \<open>urlparse\<close> raises.
\<close>

lemma do_GET_log_length:
  "length (access_log (new_state (do_GET rpc req st)))
     = length (access_log st) + (if urlparse_netloc (target_url req) = None then 0 else 1)"
  by (simp add: do_GET_def get_worker_def no_worker_def rpc_failed_def Let_def log_access_length
      split: option.splits rpc_outcome.splits)

text \<open>
  With no active worker and a target URL that \<open>urlparse\<close> accepts, the answer is 503,
  no RPC is made, and one line is appended, with worker \<open>none\<close>, cached \<open>False\<close> and
  latency \<open>0.00\<close>.
\<close>

lemma do_GET_no_worker_logged:
  assumes "active_workers st = []" and "urlparse_netloc (target_url req) = Some netloc"
  shows "do_GET rpc req st =
           \<lparr>new_state = st\<lparr>access_log := access_log st @
                [log_timestamp req @ ''|'' @ client_ip req @ ''|GET|'' @ target_url req @ ''|''
                   @ (if netloc = [] then ''unknown'' else netloc) @ ''|503|none|False|0.00'' @ [CHR 0x0A]]\<rparr>,
            response = [SendError 503 ''No RPC workers available''],
            rpc_calls = []\<rparr>"
proof -
  have "format_2f 0 = ''0.00''"
    by (simp add: format_2f_def round_half_even_def str_nat.simps digit_char_values)
  moreover have "str_int 503 = ''503''"
    by (simp add: str_int_def str_nat.simps digit_char_values)
  ultimately show ?thesis
    using assms
    by (simp add: do_GET_no_worker no_worker_def log_access_written str_bool_def)
qed

text \<open>
  With a worker selected, an RPC call that raises and a target URL that \<open>urlparse\<close>
  accepts, the answer is 502 and one line is appended, with status 502, the URL of the
  worker that was called, cached \<open>False\<close> and the milliseconds between the start of the
  request and the exception handler.
\<close>

lemma do_GET_rpc_raised_logged:
  assumes "get_worker st = (Some worker_url, st1)" and "worker_url \<noteq> []"
    and "rpc worker_url (target_url req) = RpcRaised e"
    and "urlparse_netloc (target_url req) = Some netloc"
  shows "do_GET rpc req st =
           \<lparr>new_state = st1\<lparr>access_log := access_log st1 @
                [log_timestamp req @ ''|'' @ client_ip req @ ''|GET|'' @ target_url req @ ''|''
                   @ (if netloc = [] then ''unknown'' else netloc) @ ''|502|'' @ worker_url
                   @ ''|False|'' @ format_2f ((t_except req - t_start req) * 1000) @ [CHR 0x0A]]\<rparr>,
            response = [SendError 502 (''RPC Error: '' @ e)],
            rpc_calls = [(worker_url, target_url req)]\<rparr>"
proof -
  have "str_int 502 = ''502''"
    by (simp add: str_int_def str_nat.simps digit_char_values)
  then show ?thesis
    using assms
    by (simp add: do_GET_def rpc_failed_def Let_def log_access_written str_bool_def)
qed


subsection \<open>Requests that leave no line in the access log\<close>

lemma bracket_target: "target_url ex_bracket_request = ''http://[::1/index.html''"
  by (simp add: target_url_def ex_bracket_request_def ex_request_def)

lemma bracket_netloc: "urlparse_netloc ''http://[::1/index.html'' = None"
  by (simp add: urlparse_netloc_def strip_scheme_def is_scheme_char_def is_ascii_alpha_def Let_def)

text \<open>
  C5 at the request line \<open>GET http://[::1/index.html HTTP/1.1\<close> with no active worker:
  the answer is 503 and no RPC is made, as claimed, but \<open>urlparse\<close> raises inside
  \<open>log_access\<close>, the exception is swallowed there, and the access log stays empty: no
  record with worker \<open>none\<close> is appended.
\<close>

theorem do_GET_no_worker_bracket_url:
  "do_GET ex_rpc_down ex_bracket_request ex_idle =
     \<lparr>new_state = ex_idle,
      response = [SendError 503 ''No RPC workers available''],
      rpc_calls = []\<rparr>
   \<and> access_log (new_state (do_GET ex_rpc_down ex_bracket_request ex_idle)) = []"
proof -
  have "active_workers ex_idle = []" and "access_log ex_idle = []"
    by (simp_all add: ex_idle_def)
  then show ?thesis
    by (simp add: do_GET_no_worker no_worker_def bracket_target bracket_netloc log_access_dropped)
qed

text \<open>
  C6 at the same request line with two active workers and an RPC call that raises: the
  answer is 502 after one call to the selected worker, as claimed, but the access log
  stays empty: no record with the worker's identifier is appended.
\<close>

theorem do_GET_rpc_raised_bracket_url:
  "do_GET ex_rpc_down ex_bracket_request ex_pool =
     \<lparr>new_state = ex_pool\<lparr>index := 4\<rparr>,
      response = [SendError 502 ''RPC Error: [Errno 111] Connection refused''],
      rpc_calls = [(''http://localhost:8002'', ''http://[::1/index.html'')]\<rparr>
   \<and> access_log (new_state (do_GET ex_rpc_down ex_bracket_request ex_pool)) = []"
proof -
  have sel: "get_worker ex_pool = (Some ''http://localhost:8002'', ex_pool\<lparr>index := 4\<rparr>)"
    by (simp add: get_worker_def ex_pool_def)
  have l: "access_log ex_pool = []"
    by (simp add: ex_pool_def)
  show ?thesis
    by (simp add: do_GET_def sel rpc_failed_def ex_rpc_down_def bracket_target bracket_netloc
        log_access_dropped l)
qed

text \<open>
  C9 at the same request line with two active workers and a worker that replies (with
  status 500, as \<open>fetch_url\<close> does when the origin cannot be reached): the reply is
  translated and sent to the client, and the access log stays empty. The request is
  answered and leaves no record.
\<close>

theorem do_GET_replied_bracket_url:
  "response (do_GET (ex_rpc_up ex_error_reply) ex_bracket_request ex_pool) =
     [SendResponse 500,
      SendHeader ''X-Proxy'' ''RPC-Proxy'',
      SendHeader ''X-Worker'' ''worker-1'',
      SendHeader ''X-Cached'' ''False'',
      SendHeader ''X-Response-Time'' ''250.00ms'',
      EndHeaders,
      Write (str_encode ''<urlopen error [Errno -2] Name or service not known>'')]
   \<and> rpc_calls (do_GET (ex_rpc_up ex_error_reply) ex_bracket_request ex_pool)
       = [(''http://localhost:8002'', ''http://[::1/index.html'')]
   \<and> access_log (new_state (do_GET (ex_rpc_up ex_error_reply) ex_bracket_request ex_pool)) = []"
proof -
  have sel: "get_worker ex_pool = (Some ''http://localhost:8002'', ex_pool\<lparr>index := 4\<rparr>)"
    by (simp add: get_worker_def ex_pool_def)
  have ne: "''http://localhost:8002'' \<noteq> []" by simp
  have reply: "ex_rpc_up ex_error_reply ''http://localhost:8002'' (target_url ex_bracket_request)
                 = RpcReturned ex_error_reply"
    by (simp add: ex_rpc_up_def)
  have st: "r_status ex_error_reply = Some 500"
    and body: "r_content ex_error_reply
                 = Some (str_encode ''<urlopen error [Errno -2] Name or service not known>'')"
    by (simp_all add: ex_error_reply_def)
  have "(t_reply ex_bracket_request - t_start ex_bracket_request) * 1000 = 250"
    by (simp add: ex_bracket_request_def ex_request_def)
  moreover have "round_half_even 25000 = 25000"
    by (simp add: round_half_even_def)
  ultimately have t: "format_2f ((t_reply ex_bracket_request - t_start ex_bracket_request) * 1000)
                        = ''250.00''"
    by (simp add: format_2f_def str_nat.simps digit_char_values)
  have l: "access_log (ex_pool\<lparr>index := 4\<rparr>) = []"
    by (simp add: ex_pool_def)
  note run = do_GET_replied [where rpc = "ex_rpc_up ex_error_reply", OF sel ne reply st body,
      unfolded t bracket_target]
  show ?thesis
    unfolding run
    by (simp add: forwarded_headers_def ex_error_reply_def str_bool_def bracket_netloc
        log_access_dropped l)
qed

end
